theory Spec2Isabelle
  imports Complex_Main
begin

section \<open>Subscription tracker: billing engine and budget evaluator\<close>

text \<open>
  A shallow embedding of the computational core of the subscription tracker:
  \<^item> \<^verbatim>\<open>src/renderer/js/utils/date-utils.js\<close> (date arithmetic, \<^verbatim>\<open>calculateNextBillingDate\<close>,
    \<^verbatim>\<open>isWithinRange\<close>);
  \<^item> \<^verbatim>\<open>src/renderer/js/models/subscription.js\<close> and \<^verbatim>\<open>models/budget.js\<close> (constructors,
    validation, \<^verbatim>\<open>recordPayment\<close>, percentage and alert level);
  \<^item> \<^verbatim>\<open>src/renderer/js/services/subscription-service.js\<close> and \<^verbatim>\<open>budget-service.js\<close>
    (create, update, monthly cost, spending for a budget);
  \<^item> \<^verbatim>\<open>main.js\<close> (\<^verbatim>\<open>convertToCSV\<close>).

  Conventions of the model.
  \<^item> A JavaScript \<^verbatim>\<open>Date\<close> and an ISO timestamp string are represented by the time value
    they denote: an \<^typ>\<open>int\<close> of milliseconds since the epoch. Invalid dates and the
    range limit of time values are not part of the model.
  \<^item> Local time is UTC shifted by a fixed offset \<open>tza\<close> (milliseconds), a parameter of every
    function that reads or writes local date fields. Daylight saving is not modelled.
  \<^item> Finite JavaScript numbers are rationals (\<^typ>\<open>rat\<close>): rounding of doubles is not
    modelled. A division can leave the finite numbers, so its result is a \<open>jsnum\<close>.
  \<^item> An absent (\<^verbatim>\<open>undefined\<close> or \<^verbatim>\<open>null\<close>) property is \<^const>\<open>None\<close>.
  \<^item> The clock and the UUID generator are inputs: \<open>now\<close> and \<open>uuid\<close>.
\<close>

subsection \<open>Time values and calendar fields (ECMAScript, Date objects)\<close>

text \<open>
  The functions below follow the abstract operations of the ECMAScript specification that
  \<^verbatim>\<open>Date.prototype.getDate\<close>, \<^verbatim>\<open>setDate\<close>, \<^verbatim>\<open>setMonth\<close> and \<^verbatim>\<open>setFullYear\<close> are defined by.
  Months are numbered from 0 (January) to 11 (December).
\<close>

definition msPerDay :: int where
  "msPerDay = 86400000"

definition Day :: "int \<Rightarrow> int" where
  "Day t = t div msPerDay"

definition TimeWithinDay :: "int \<Rightarrow> int" where
  "TimeWithinDay t = t mod msPerDay"

definition DaysInYear :: "int \<Rightarrow> int" where
  "DaysInYear y =
     (if y mod 4 \<noteq> 0 then 365 else if y mod 100 \<noteq> 0 then 366
      else if y mod 400 \<noteq> 0 then 365 else 366)"

definition DayFromYear :: "int \<Rightarrow> int" where
  "DayFromYear y =
     365 * (y - 1970) + (y - 1969) div 4 - (y - 1901) div 100 + (y - 1601) div 400"

text \<open>The first day of year \<open>y + 1\<close> comes \<open>DaysInYear y\<close> days after the first day of \<open>y\<close>.\<close>

lemma div_succ:
  fixes x n :: int
  assumes "0 < n"
  shows "(x + 1) div n = (if (x + 1) mod n = 0 then x div n + 1 else x div n)"
proof (cases "(x + 1) mod n = 0")
  case True
  then obtain k where k: "x + 1 = n * k"
    by (metis mod_eq_0_iff_dvd dvd_def)
  have "x = n * (k - 1) + (n - 1)"
    using k by (simp add: algebra_simps)
  then have "x div n = k - 1"
    using assms by (intro int_div_pos_eq[where r = "n - 1"]) auto
  moreover have "(x + 1) div n = k"
    using k assms by simp
  ultimately show ?thesis
    using True by simp
next
  case False
  let ?q = "x div n"
  let ?r = "x mod n"
  have r: "0 \<le> ?r" "?r < n"
    using assms by simp_all
  have "?r + 1 \<noteq> n"
  proof
    assume "?r + 1 = n"
    then have "x + 1 = n * (?q + 1)"
      by (metis add.assoc mult.commute mult_div_mod_eq distrib_left mult.right_neutral)
    then have "(x + 1) mod n = 0"
      by simp
    with False show False
      by simp
  qed
  then have "?r + 1 < n"
    using r by simp
  moreover have "x + 1 = n * ?q + (?r + 1)"
    by simp
  ultimately have "(x + 1) div n = ?q"
    using r by (intro int_div_pos_eq[where r = "?r + 1"]) auto
  then show ?thesis
    using False by simp
qed

lemma mod_shift: "(y - k * n) mod n = (y::int) mod n"
  by (metis mod_diff_right_eq mod_mult_self2_is_0 diff_zero mult.commute)

lemma leap_facts:
  fixes y :: int
  shows "y mod 100 = 0 \<Longrightarrow> y mod 4 = 0" and "y mod 400 = 0 \<Longrightarrow> y mod 100 = 0"
proof -
  have "(4::int) dvd 100" "(100::int) dvd 400"
    by simp_all
  then show "y mod 100 = 0 \<Longrightarrow> y mod 4 = 0" and "y mod 400 = 0 \<Longrightarrow> y mod 100 = 0"
    by (meson dvd_trans mod_eq_0_iff_dvd)+
qed

lemma DayFromYear_Suc: "DayFromYear (y + 1) = DayFromYear y + DaysInYear y"
proof -
  have a: "(y - 1968) div 4 = (if y mod 4 = 0 then (y - 1969) div 4 + 1 else (y - 1969) div 4)"
    using div_succ[of 4 "y - 1969"] mod_shift[of y 492 4] by simp
  have b: "(y - 1900) div 100
             = (if y mod 100 = 0 then (y - 1901) div 100 + 1 else (y - 1901) div 100)"
    using div_succ[of 100 "y - 1901"] mod_shift[of y 19 100] by simp
  have c: "(y - 1600) div 400
             = (if y mod 400 = 0 then (y - 1601) div 400 + 1 else (y - 1601) div 400)"
    using div_succ[of 400 "y - 1601"] mod_shift[of y 4 400] by simp
  have "DayFromYear (y + 1)
          = 365 * (y - 1969) + (y - 1968) div 4 - (y - 1900) div 100 + (y - 1600) div 400"
    by (simp add: DayFromYear_def)
  then show ?thesis
    using leap_facts[of y] by (simp add: a b c DayFromYear_def DaysInYear_def)
qed

lemma DaysInYear_bounds: "365 \<le> DaysInYear y" "DaysInYear y \<le> 366"
  by (simp_all add: DaysInYear_def)

lemma DayFromYear_mono: "y \<le> y' \<Longrightarrow> DayFromYear y \<le> DayFromYear y'"
proof (induction y' rule: int_ge_induct)
  case base
  show ?case by simp
next
  case (step i)
  then show ?case
    using DayFromYear_Suc[of i] DaysInYear_bounds(1)[of i] by simp
qed

lemma DayFromYear_less: "y < y' \<Longrightarrow> DayFromYear y < DayFromYear y'"
  using DayFromYear_mono[of "y + 1" y'] DayFromYear_Suc[of y] DaysInYear_bounds(1)[of y]
  by simp

text \<open>
  \<open>YearFromTime t\<close> is the largest year whose first day is not after \<open>t\<close>. It is computed
  by a search upwards from a year that is certainly not too late.
\<close>

function year_search :: "int \<Rightarrow> int \<Rightarrow> int" where
  "year_search d y = (if DayFromYear (y + 1) \<le> d then year_search d (y + 1) else y)"
  by pat_completeness auto
termination
proof (relation "measure (\<lambda>(d, y). nat (d - DayFromYear y))")
  show "wf (measure (\<lambda>(d, y). nat (d - DayFromYear y)))"
    by simp
next
  fix d y
  assume "DayFromYear (y + 1) \<le> d"
  moreover have "DayFromYear y < DayFromYear (y + 1)"
    by (rule DayFromYear_less) simp
  ultimately show "((d, y + 1), (d, y)) \<in> measure (\<lambda>(d, y). nat (d - DayFromYear y))"
    by simp
qed

definition YearFromTime :: "int \<Rightarrow> int" where
  "YearFromTime t =
     year_search (Day t) (if 0 \<le> Day t then 1970 + Day t div 366 else 1970 + Day t div 365)"

definition leap_flag :: "int \<Rightarrow> int" where
  "leap_flag y = (if DaysInYear y = 366 then 1 else 0)"

definition InLeapYear :: "int \<Rightarrow> int" where
  "InLeapYear t = leap_flag (YearFromTime t)"

definition DayWithinYear :: "int \<Rightarrow> int" where
  "DayWithinYear t = Day t - DayFromYear (YearFromTime t)"

definition month_start :: "int \<Rightarrow> int \<Rightarrow> int" where
  "month_start L m =
     (if m = 0 then 0 else if m = 1 then 31 else if m = 2 then 59 + L
      else if m = 3 then 90 + L else if m = 4 then 120 + L else if m = 5 then 151 + L
      else if m = 6 then 181 + L else if m = 7 then 212 + L else if m = 8 then 243 + L
      else if m = 9 then 273 + L else if m = 10 then 304 + L else 334 + L)"

definition MonthFromTime :: "int \<Rightarrow> int" where
  "MonthFromTime t =
     (let d = DayWithinYear t; L = InLeapYear t in
      if d < 31 then 0 else if d < 59 + L then 1 else if d < 90 + L then 2
      else if d < 120 + L then 3 else if d < 151 + L then 4 else if d < 181 + L then 5
      else if d < 212 + L then 6 else if d < 243 + L then 7 else if d < 273 + L then 8
      else if d < 304 + L then 9 else if d < 334 + L then 10 else 11)"

definition DateFromTime :: "int \<Rightarrow> int" where
  "DateFromTime t = DayWithinYear t - month_start (InLeapYear t) (MonthFromTime t) + 1"

definition MakeDay :: "int \<Rightarrow> int \<Rightarrow> int \<Rightarrow> int" where
  "MakeDay year month dt =
     (let ym = year + month div 12; mn = month mod 12 in
      DayFromYear ym + month_start (leap_flag ym) mn + dt - 1)"

definition MakeDate :: "int \<Rightarrow> int \<Rightarrow> int" where
  "MakeDate day time = day * msPerDay + time"

definition DaysInMonth :: "int \<Rightarrow> int \<Rightarrow> int" where
  "DaysInMonth y m =
     (if m = 1 then 28 + leap_flag y
      else if m = 3 \<or> m = 5 \<or> m = 8 \<or> m = 10 then 30 else 31)"


subsection \<open>Date objects: the methods the program calls\<close>

text \<open>
  A \<^verbatim>\<open>Date\<close> object holds a time value. The getters read a field of the local time; the
  setters rebuild the time value from the local fields with one of them replaced, so a day
  or month outside its range carries over into the next month or year.
\<close>

definition LocalTime :: "int \<Rightarrow> int \<Rightarrow> int" where
  "LocalTime tza t = t + tza"

definition UTC :: "int \<Rightarrow> int \<Rightarrow> int" where
  "UTC tza t = t - tza"

definition getFullYear :: "int \<Rightarrow> int \<Rightarrow> int" where
  "getFullYear tza t = YearFromTime (LocalTime tza t)"

definition getMonth :: "int \<Rightarrow> int \<Rightarrow> int" where
  "getMonth tza t = MonthFromTime (LocalTime tza t)"

definition getDate :: "int \<Rightarrow> int \<Rightarrow> int" where
  "getDate tza t = DateFromTime (LocalTime tza t)"

definition setDate :: "int \<Rightarrow> int \<Rightarrow> int \<Rightarrow> int" where
  "setDate tza t dt =
     (let lt = LocalTime tza t in
      UTC tza (MakeDate (MakeDay (YearFromTime lt) (MonthFromTime lt) dt) (TimeWithinDay lt)))"

definition setMonth :: "int \<Rightarrow> int \<Rightarrow> int \<Rightarrow> int" where
  "setMonth tza t m =
     (let lt = LocalTime tza t in
      UTC tza (MakeDate (MakeDay (YearFromTime lt) m (DateFromTime lt)) (TimeWithinDay lt)))"

definition setFullYear :: "int \<Rightarrow> int \<Rightarrow> int \<Rightarrow> int" where
  "setFullYear tza t y =
     (let lt = LocalTime tza t in
      UTC tza (MakeDate (MakeDay y (MonthFromTime lt) (DateFromTime lt)) (TimeWithinDay lt)))"

text \<open>The local calendar date and the local time of day of a time value.\<close>

definition civil :: "int \<Rightarrow> int \<Rightarrow> int \<times> int \<times> int" where
  "civil tza t = (getFullYear tza t, getMonth tza t, getDate tza t)"

definition time_of_day :: "int \<Rightarrow> int \<Rightarrow> int" where
  "time_of_day tza t = TimeWithinDay (LocalTime tza t)"

subsection \<open>JavaScript defaults: \<^verbatim>\<open>x || d\<close>\<close>

text \<open>
  \<^verbatim>\<open>x || d\<close> is \<open>d\<close> when \<open>x\<close> is falsy: absent, the number 0 (or NaN) or the empty string.
  An object or an array that is present is always truthy.
\<close>

definition num_or :: "'a::zero option \<Rightarrow> 'a \<Rightarrow> 'a" where
  "num_or x d = (case x of None \<Rightarrow> d | Some v \<Rightarrow> if v = 0 then d else v)"

definition str_or :: "string option \<Rightarrow> string \<Rightarrow> string" where
  "str_or x d = (case x of None \<Rightarrow> d | Some v \<Rightarrow> if v = [] then d else v)"

definition obj_or :: "'a option \<Rightarrow> 'a \<Rightarrow> 'a" where
  "obj_or x d = (case x of None \<Rightarrow> d | Some v \<Rightarrow> v)"

subsection \<open>Data model\<close>

record billing_cycle =
  bc_type :: string
  customDays :: "int option"

record payment =
  pay_date :: int
  pay_amount :: rat
  pay_currency :: string

record Subscription =
  sub_id :: string
  name :: string
  cost :: rat
  currency :: string
  billingCycle :: billing_cycle
  nextBillingDate :: int
  category :: string
  sub_notes :: string
  paymentMethod :: string
  isActive :: bool
  reminderDays :: "int list"
  createdAt :: int
  updatedAt :: int
  history :: "payment list"

record budget_period =
  period_start :: int
  period_end :: int

record Budget =
  bud_id :: string
  bud_type :: string
  amount :: rat
  bud_currency :: string
  bud_category :: "string option"
  period :: budget_period
  alertThreshold :: rat
  bud_isActive :: bool
  bud_createdAt :: int
  bud_updatedAt :: int

subsection \<open>date-utils.js\<close>

definition addDays :: "int \<Rightarrow> int \<Rightarrow> int \<Rightarrow> int" where
  "addDays tza date days = setDate tza date (getDate tza date + days)"

definition addMonths :: "int \<Rightarrow> int \<Rightarrow> int \<Rightarrow> int" where
  "addMonths tza date months = setMonth tza date (getMonth tza date + months)"

definition addYears :: "int \<Rightarrow> int \<Rightarrow> int \<Rightarrow> int" where
  "addYears tza date years = setFullYear tza date (getFullYear tza date + years)"

definition isWithinRange :: "int \<Rightarrow> int \<Rightarrow> int \<Rightarrow> bool" where
  "isWithinRange date startDate endDate = (date \<ge> startDate \<and> date \<le> endDate)"

definition calculateNextBillingDate :: "int \<Rightarrow> int \<Rightarrow> billing_cycle \<Rightarrow> int" where
  "calculateNextBillingDate tza currentDate cycle =
     (let ty = bc_type cycle in
      if ty = ''daily'' then addDays tza currentDate 1
      else if ty = ''weekly'' then addDays tza currentDate 7
      else if ty = ''monthly'' then addMonths tza currentDate 1
      else if ty = ''quarterly'' then addMonths tza currentDate 3
      else if ty = ''yearly'' then addYears tza currentDate 1
      else if ty = ''custom'' then addDays tza currentDate (num_or (customDays cycle) 30)
      else addMonths tza currentDate 1)"

subsection \<open>models/subscription.js: the billing methods\<close>

text \<open>
  \<^verbatim>\<open>Subscription.calculateNextBillingDate\<close> works on a copy of \<^verbatim>\<open>this.nextBillingDate\<close>. A
  custom cycle advances only \<^verbatim>\<open>if (customDays)\<close>; the \<^verbatim>\<open>default\<close> branch leaves the date as
  it is.
\<close>

definition Subscription_calculateNextBillingDate :: "int \<Rightarrow> Subscription \<Rightarrow> int" where
  "Subscription_calculateNextBillingDate tza s =
     (let currentDate = nextBillingDate s;
          ty = bc_type (billingCycle s);
          cd = customDays (billingCycle s) in
      if ty = ''daily'' then setDate tza currentDate (getDate tza currentDate + 1)
      else if ty = ''weekly'' then setDate tza currentDate (getDate tza currentDate + 7)
      else if ty = ''monthly'' then setMonth tza currentDate (getMonth tza currentDate + 1)
      else if ty = ''quarterly'' then setMonth tza currentDate (getMonth tza currentDate + 3)
      else if ty = ''yearly'' then setFullYear tza currentDate (getFullYear tza currentDate + 1)
      else if ty = ''custom'' then
        (case cd of
           None \<Rightarrow> currentDate
         | Some n \<Rightarrow> if n = 0 then currentDate
                     else setDate tza currentDate (getDate tza currentDate + n))
      else currentDate)"


text \<open>
  The calendar step that \<^verbatim>\<open>setMonth\<close> performs, on calendar dates: the month is advanced by
  \<open>k\<close> and the day of the month is kept; when the target month is too short for that day, the
  surplus days run over into the month after it. \<open>plus_months_clamped\<close> is the other policy,
  which stops at the last day of the target month.
\<close>

definition month_norm :: "int \<Rightarrow> int \<Rightarrow> int \<times> int" where
  "month_norm y m = (y + m div 12, m mod 12)"

definition plus_months :: "int \<times> int \<times> int \<Rightarrow> int \<Rightarrow> int \<times> int \<times> int" where
  "plus_months ymd k =
     (case ymd of (y, m, d) \<Rightarrow>
        (case month_norm y (m + k) of (y1, m1) \<Rightarrow>
           if d \<le> DaysInMonth y1 m1 then (y1, m1, d)
           else (case month_norm y1 (m1 + 1) of (y2, m2) \<Rightarrow>
                   (y2, m2, d - DaysInMonth y1 m1))))"

definition plus_months_clamped :: "int \<times> int \<times> int \<Rightarrow> int \<Rightarrow> int \<times> int \<times> int" where
  "plus_months_clamped ymd k =
     (case ymd of (y, m, d) \<Rightarrow>
        (case month_norm y (m + k) of (y1, m1) \<Rightarrow> (y1, m1, min d (DaysInMonth y1 m1))))"



subsection \<open>Numbers that a division can produce\<close>

text \<open>
  Dividing by zero is not an error in JavaScript: it yields an infinity or NaN, and
  comparisons with NaN are false.
\<close>

datatype jsnum = Fin rat | PosInf | NegInf | NaN

definition js_div :: "rat \<Rightarrow> rat \<Rightarrow> jsnum" where
  "js_div a b =
     (if b \<noteq> 0 then Fin (a / b)
      else if 0 < a then PosInf else if a < 0 then NegInf else NaN)"

definition js_mul :: "jsnum \<Rightarrow> rat \<Rightarrow> jsnum" where
  "js_mul x c =
     (case x of
        Fin a \<Rightarrow> Fin (a * c)
      | PosInf \<Rightarrow> if 0 < c then PosInf else if c < 0 then NegInf else NaN
      | NegInf \<Rightarrow> if 0 < c then NegInf else if c < 0 then PosInf else NaN
      | NaN \<Rightarrow> NaN)"

definition js_add :: "jsnum \<Rightarrow> jsnum \<Rightarrow> jsnum" where
  "js_add x y =
     (case (x, y) of
        (Fin a, Fin b) \<Rightarrow> Fin (a + b)
      | (NaN, _) \<Rightarrow> NaN
      | (_, NaN) \<Rightarrow> NaN
      | (PosInf, NegInf) \<Rightarrow> NaN
      | (NegInf, PosInf) \<Rightarrow> NaN
      | (PosInf, _) \<Rightarrow> PosInf
      | (_, PosInf) \<Rightarrow> PosInf
      | (NegInf, _) \<Rightarrow> NegInf
      | (_, NegInf) \<Rightarrow> NegInf)"

definition js_ge :: "jsnum \<Rightarrow> rat \<Rightarrow> bool" where
  "js_ge x c = (case x of Fin a \<Rightarrow> a \<ge> c | PosInf \<Rightarrow> True | NegInf \<Rightarrow> False | NaN \<Rightarrow> False)"

subsection \<open>models/budget.js\<close>

record budget_data =
  bd_id :: "string option"
  bd_type :: "string option"
  bd_amount :: "rat option"
  bd_currency :: "string option"
  bd_category :: "string option"
  bd_period :: "budget_period option"
  bd_alertThreshold :: "rat option"
  bd_isActive :: "bool option"
  bd_createdAt :: "int option"
  bd_updatedAt :: "int option"

definition Budget_calculatePeriodEnd :: "int \<Rightarrow> int \<Rightarrow> string \<Rightarrow> int" where
  "Budget_calculatePeriodEnd tza now ty =
     (if ty = ''monthly'' then setMonth tza now (getMonth tza now + 1)
      else if ty = ''yearly'' then setFullYear tza now (getFullYear tza now + 1)
      else setMonth tza now (getMonth tza now + 1))"

text \<open>
  The constructor. \<^verbatim>\<open>parseFloat(data.amount) || 0\<close> and \<^verbatim>\<open>data.alertThreshold || 80\<close> are
  numeric defaults; \<^verbatim>\<open>data.category || null\<close> turns an empty category into none.
\<close>

definition Budget_new :: "int \<Rightarrow> int \<Rightarrow> string \<Rightarrow> budget_data \<Rightarrow> Budget" where
  "Budget_new tza now uuid data =
     \<lparr>bud_id = str_or (bd_id data) uuid,
      bud_type = str_or (bd_type data) ''monthly'',
      amount = num_or (bd_amount data) 0,
      bud_currency = str_or (bd_currency data) ''USD'',
      bud_category = (case bd_category data of None \<Rightarrow> None
                      | Some c \<Rightarrow> if c = [] then None else Some c),
      period = obj_or (bd_period data)
                 \<lparr>period_start = now,
                  period_end = Budget_calculatePeriodEnd tza now (str_or (bd_type data) ''monthly'')\<rparr>,
      alertThreshold = num_or (bd_alertThreshold data) 80,
      bud_isActive = (case bd_isActive data of None \<Rightarrow> True | Some a \<Rightarrow> a),
      bud_createdAt = obj_or (bd_createdAt data) now,
      bud_updatedAt = obj_or (bd_updatedAt data) now\<rparr>"

definition Budget_validate :: "Budget \<Rightarrow> string list" where
  "Budget_validate b =
     (if amount b \<le> 0 then [''Budget amount must be greater than 0''] else []) @
     (if bud_type b \<notin> set [''monthly'', ''yearly'', ''category'']
      then [''Invalid budget type''] else []) @
     (if alertThreshold b < 0 \<or> alertThreshold b > 100
      then [''Alert threshold must be between 0 and 100''] else [])"

definition Budget_calculatePercentageUsed :: "Budget \<Rightarrow> rat \<Rightarrow> jsnum" where
  "Budget_calculatePercentageUsed b spent =
     (if amount b = 0 then Fin 0 else js_mul (js_div spent (amount b)) 100)"

definition Budget_shouldAlert :: "Budget \<Rightarrow> rat \<Rightarrow> bool" where
  "Budget_shouldAlert b spent =
     (let percentageUsed = Budget_calculatePercentageUsed b spent
      in js_ge percentageUsed (alertThreshold b))"

definition Budget_getAlertLevel :: "Budget \<Rightarrow> rat \<Rightarrow> string" where
  "Budget_getAlertLevel b spent =
     (let percentageUsed = Budget_calculatePercentageUsed b spent in
      if js_ge percentageUsed 100 then ''danger''
      else if js_ge percentageUsed (alertThreshold b) then ''warning''
      else if js_ge percentageUsed (alertThreshold b * (3 / 4)) then ''info''
      else ''success'')"


subsection \<open>models/subscription.js: constructor and validation\<close>



text \<open>\<^verbatim>\<open>String.prototype.trim\<close>, on the ASCII white space characters.\<close>

definition js_whitespace :: "char \<Rightarrow> bool" where
  "js_whitespace c = (of_char c \<in> {9, 10, 11, 12, 13, 32 :: nat})"

definition trim :: "string \<Rightarrow> string" where
  "trim s = rev (dropWhile js_whitespace (rev (dropWhile js_whitespace s)))"

text \<open>
  \<^verbatim>\<open>validate\<close> collects its messages in source order. The check \<^verbatim>\<open>!this.nextBillingDate\<close> has
  no counterpart: a time value is always present.
\<close>

definition Subscription_validate :: "Subscription \<Rightarrow> string list" where
  "Subscription_validate s =
     (if name s = [] \<or> trim (name s) = [] then [''Name is required''] else []) @
     (if cost s \<le> 0 then [''Cost must be greater than 0''] else []) @
     (if currency s = [] then [''Currency is required''] else []) @
     (if bc_type (billingCycle s)
           \<notin> set [''daily'', ''weekly'', ''monthly'', ''quarterly'', ''yearly'', ''custom'']
      then [''Invalid billing cycle type''] else []) @
     (if bc_type (billingCycle s) = ''custom'' \<and>
         (case customDays (billingCycle s) of None \<Rightarrow> True | Some n \<Rightarrow> n = 0 \<or> n \<le> 0)
      then [''Custom billing cycle requires valid number of days''] else [])"


subsection \<open>services: errors, storage, create and update\<close>


text \<open>\<^verbatim>\<open>Array.prototype.join\<close> and \<^verbatim>\<open>findIndex\<close>.\<close>

fun join :: "string \<Rightarrow> string list \<Rightarrow> string" where
  "join sep [] = []"
| "join sep [x] = x"
| "join sep (x # y # ys) = x @ sep @ join sep (y # ys)"

fun findIndex :: "('a \<Rightarrow> bool) \<Rightarrow> 'a list \<Rightarrow> nat option" where
  "findIndex p [] = None"
| "findIndex p (x # xs) =
     (if p x then Some 0 else (case findIndex p xs of None \<Rightarrow> None | Some i \<Rightarrow> Some (Suc i)))"

text \<open>
  A service holds its collection in memory and writes a copy to local storage on
  \<^verbatim>\<open>save\<close>. The storage service catches a failed write and returns \<^verbatim>\<open>false\<close>, which the
  services ignore; \<open>writable\<close> says whether the write goes through.
\<close>

record SubscriptionService =
  subscriptions :: "Subscription list"
  stored_subscriptions :: "Subscription list"















subsection \<open>services/subscription-service.js: monthly cost\<close>

text \<open>
  Both functions start from \<^verbatim>\<open>monthlyCost = cost\<close> and overwrite it in a \<^verbatim>\<open>switch\<close> without a
  \<^verbatim>\<open>default\<close> branch; \<^verbatim>\<open>getTotalMonthlyCost\<close> repeats the switch inside its \<^verbatim>\<open>reduce\<close> over
  the active subscriptions.
\<close>

definition SubscriptionService_getSubscriptionMonthlyCost :: "Subscription \<Rightarrow> jsnum" where
  "SubscriptionService_getSubscriptionMonthlyCost subscription =
     (let ty = bc_type (billingCycle subscription) in
      if ty = ''daily'' then Fin (cost subscription * 30)
      else if ty = ''weekly'' then Fin (cost subscription * 4)
      else if ty = ''monthly'' then Fin (cost subscription)
      else if ty = ''quarterly'' then js_div (cost subscription) 3
      else if ty = ''yearly'' then js_div (cost subscription) 12
      else if ty = ''custom'' then
        js_mul (js_div (cost subscription)
                  (of_int (num_or (customDays (billingCycle subscription)) 30))) 30
      else Fin (cost subscription))"

definition SubscriptionService_getActive :: "SubscriptionService \<Rightarrow> Subscription list" where
  "SubscriptionService_getActive svc = filter isActive (subscriptions svc)"

definition SubscriptionService_getTotalMonthlyCost :: "SubscriptionService \<Rightarrow> jsnum" where
  "SubscriptionService_getTotalMonthlyCost svc =
     foldl (\<lambda>total sub.
              let ty = bc_type (billingCycle sub);
                  monthlyCost =
                    (if ty = ''daily'' then Fin (cost sub * 30)
                     else if ty = ''weekly'' then Fin (cost sub * 4)
                     else if ty = ''monthly'' then Fin (cost sub)
                     else if ty = ''quarterly'' then js_div (cost sub) 3
                     else if ty = ''yearly'' then js_div (cost sub) 12
                     else if ty = ''custom'' then
                       js_mul (js_div (cost sub)
                                 (of_int (num_or (customDays (billingCycle sub)) 30))) 30
                     else Fin (cost sub))
              in js_add total monthlyCost)
       (Fin 0) (SubscriptionService_getActive svc)"

subsection \<open>services/budget-service.js: spending for a budget\<close>

text \<open>
  The two nested \<^verbatim>\<open>forEach\<close> loops add to one accumulator \<^verbatim>\<open>spent\<close>. A subscription is skipped
  when the budget has a (non-empty) category and the subscription's category differs.
\<close>

definition BudgetService_getSpendingForBudget :: "Budget \<Rightarrow> Subscription list \<Rightarrow> rat" where
  "BudgetService_getSpendingForBudget budget subs =
     foldl (\<lambda>spent sub.
              if (case bud_category budget of None \<Rightarrow> False
                  | Some c \<Rightarrow> c \<noteq> [] \<and> category sub \<noteq> c)
              then spent
              else
                (let spent1 =
                       foldl (\<lambda>sp payment.
                                if isWithinRange (pay_date payment)
                                     (period_start (period budget)) (period_end (period budget))
                                then sp + pay_amount payment else sp)
                         spent (history sub)
                 in if isActive sub \<and>
                       isWithinRange (nextBillingDate sub)
                         (period_start (period budget)) (period_end (period budget))
                    then spent1 + cost sub else spent1))
       0 subs"

text \<open>The same sum, written as the specification describes it.\<close>

definition matches_budget :: "Budget \<Rightarrow> Subscription \<Rightarrow> bool" where
  "matches_budget budget sub =
     (case bud_category budget of None \<Rightarrow> True | Some c \<Rightarrow> c = [] \<or> category sub = c)"

definition in_period :: "Budget \<Rightarrow> int \<Rightarrow> bool" where
  "in_period budget t = (period_start (period budget) \<le> t \<and> t \<le> period_end (period budget))"

definition paid_in_period :: "Budget \<Rightarrow> Subscription \<Rightarrow> rat" where
  "paid_in_period budget sub =
     sum_list (map pay_amount (filter (\<lambda>p. in_period budget (pay_date p)) (history sub)))"

definition upcoming_in_period :: "Budget \<Rightarrow> Subscription \<Rightarrow> rat" where
  "upcoming_in_period budget sub =
     (if isActive sub \<and> in_period budget (nextBillingDate sub) then cost sub else 0)"

subsection \<open>main.js: CSV export\<close>

text \<open>
  The exported subscriptions are plain JSON objects, so any property may be missing.
  \<open>numStr\<close> stands for \<^verbatim>\<open>String\<close> applied to a number, and \<open>isoDay\<close> for
  \<^verbatim>\<open>new Date(s).toISOString().split('T')[0]\<close>, which is \<^const>\<open>None\<close> when \<^verbatim>\<open>toISOString\<close> throws.
  \<open>csv_cycle_type\<close> is \<^const>\<open>None\<close> when the billing cycle or its type is missing.
\<close>

record csv_subscription =
  csv_name :: "string option"
  csv_cost :: "rat option"
  csv_currency :: "string option"
  csv_cycle_type :: "string option"
  csv_nextBillingDate :: "string option"
  csv_category :: "string option"
  csv_isActive :: bool
  csv_notes :: "string option"
  csv_createdAt :: "string option"

definition comma :: char where "comma = CHR 0x2C"
definition dquote :: char where "dquote = CHR 0x22"
definition newline :: char where "newline = CHR 0x0A"

definition escapeCSV :: "string option \<Rightarrow> string" where
  "escapeCSV field =
     (case field of
        None \<Rightarrow> []
      | Some str \<Rightarrow>
          if comma \<in> set str \<or> dquote \<in> set str \<or> newline \<in> set str
          then [dquote] @ concat (map (\<lambda>c. if c = dquote then [dquote, dquote] else [c]) str)
               @ [dquote]
          else str)"

definition toUpperCase_char :: "char \<Rightarrow> char" where
  "toUpperCase_char c =
     (let n = of_char c :: nat in if 97 \<le> n \<and> n \<le> 122 then char_of (n - 32) else c)"

definition formatBillingCycle :: "string option \<Rightarrow> string" where
  "formatBillingCycle ty =
     (case ty of
        None \<Rightarrow> ''Monthly''
      | Some t \<Rightarrow> (case t of [] \<Rightarrow> ''Monthly'' | c # cs \<Rightarrow> toUpperCase_char c # cs))"

definition formatDate_csv :: "(string \<Rightarrow> string option) \<Rightarrow> string option \<Rightarrow> string" where
  "formatDate_csv isoDay dateStr =
     (case dateStr of
        None \<Rightarrow> []
      | Some s \<Rightarrow> if s = [] then []
                  else (case isoDay s of Some d \<Rightarrow> d | None \<Rightarrow> s))"

definition csv_headers :: "string list" where
  "csv_headers =
     [''Name'', ''Cost'', ''Currency'', ''Billing Cycle'', ''Next Billing Date'', ''Category'',
      ''Status'', ''Notes'', ''Created Date'']"

definition csv_row ::
  "(rat \<Rightarrow> string) \<Rightarrow> (string \<Rightarrow> string option) \<Rightarrow> csv_subscription \<Rightarrow> string" where
  "csv_row numStr isoDay sub =
     join [comma]
       [escapeCSV (csv_name sub),
        escapeCSV (map_option numStr (csv_cost sub)),
        escapeCSV (Some (str_or (csv_currency sub) ''USD'')),
        escapeCSV (Some (formatBillingCycle (csv_cycle_type sub))),
        escapeCSV (Some (formatDate_csv isoDay (csv_nextBillingDate sub))),
        escapeCSV (Some (str_or (csv_category sub) ''Other'')),
        escapeCSV (Some (if csv_isActive sub then ''Active'' else ''Inactive'')),
        escapeCSV (Some (str_or (csv_notes sub) '''')),
        escapeCSV (Some (formatDate_csv isoDay (csv_createdAt sub)))]"

definition convertToCSV ::
  "(rat \<Rightarrow> string) \<Rightarrow> (string \<Rightarrow> string option) \<Rightarrow> csv_subscription list option \<Rightarrow> string" where
  "convertToCSV numStr isoDay data_subscriptions =
     (let subs = obj_or data_subscriptions [] in
      if length subs = 0
      then ''Name,Cost,Currency,Billing Cycle,Next Billing Date,Category,Status,Notes'' @ [newline]
      else (let rows = map (csv_row numStr isoDay) subs
            in join [newline] (join [comma] csv_headers # rows)))"

subsection \<open>Sample records for the examples\<close>

definition sample_subscription :: Subscription where
  "sample_subscription =
     \<lparr>sub_id = ''s1'', name = ''Video'', cost = 12, currency = ''USD'',
      billingCycle = \<lparr>bc_type = ''monthly'', customDays = None\<rparr>,
      nextBillingDate = 1706702400000, category = ''Streaming'', sub_notes = '''',
      paymentMethod = '''', isActive = True, reminderDays = [3],
      createdAt = 1700000000000, updatedAt = 1700000000000, history = []\<rparr>"

definition sample_budget :: Budget where
  "sample_budget =
     \<lparr>bud_id = ''b1'', bud_type = ''monthly'', amount = 100, bud_currency = ''USD'',
      bud_category = None,
      period = \<lparr>period_start = 1704067200000, period_end = 1706745600000\<rparr>,
      alertThreshold = 80, bud_isActive = True,
      bud_createdAt = 1704067200000, bud_updatedAt = 1704067200000\<rparr>"

definition sample_budget_data :: budget_data where
  "sample_budget_data =
     \<lparr>bd_id = None, bd_type = Some ''monthly'', bd_amount = Some 100, bd_currency = None,
      bd_category = None, bd_period = None, bd_alertThreshold = Some 0, bd_isActive = None,
      bd_createdAt = None, bd_updatedAt = None\<rparr>"



definition sample_csv_subscription :: csv_subscription where
  "sample_csv_subscription =
     \<lparr>csv_name = Some ''Video, HD'', csv_cost = Some 12, csv_currency = None,
      csv_cycle_type = Some ''monthly'', csv_nextBillingDate = Some ''2024-01-31T12:00:00.000Z'',
      csv_category = Some ''Streaming'', csv_isActive = True,
      csv_notes = Some (''say '' @ [dquote] @ ''hi'' @ [dquote]), csv_createdAt = None\<rparr>"


section \<open>Properties\<close>

subsection \<open>Calendar lemmas\<close>

lemma leap_flag_range: "0 \<le> leap_flag y" "leap_flag y \<le> 1"
  by (simp_all add: leap_flag_def)

lemma DaysInYear_leap: "DaysInYear y = 365 + leap_flag y"
  by (simp add: leap_flag_def DaysInYear_def)

lemma year_search_bounds:
  "DayFromYear y \<le> d \<Longrightarrow>
     DayFromYear (year_search d y) \<le> d \<and> d < DayFromYear (year_search d y + 1)"
proof (induction d y rule: year_search.induct)
  case (1 d y)
  show ?case
  proof (cases "DayFromYear (y + 1) \<le> d")
    case True
    then show ?thesis using "1.IH" by (subst (1 2) year_search.simps) simp
  next
    case False
    then show ?thesis using "1.prems" by (subst (1 2) year_search.simps) simp
  qed
qed

lemma DayFromYear_upper: "0 \<le> j \<Longrightarrow> DayFromYear (1970 + j) \<le> 366 * j"
proof (induction j rule: int_ge_induct)
  case base show ?case by (simp add: DayFromYear_def)
next
  case (step i)
  have "DayFromYear (1970 + (i + 1)) = DayFromYear (1970 + i) + DaysInYear (1970 + i)"
    using DayFromYear_Suc[of "1970 + i"] by (simp add: add.assoc)
  then show ?case using step DaysInYear_bounds(2)[of "1970 + i"] by simp
qed

lemma DayFromYear_lower: "j \<le> 0 \<Longrightarrow> DayFromYear (1970 + j) \<le> 365 * j"
proof (induction j rule: int_le_induct)
  case base show ?case by (simp add: DayFromYear_def)
next
  case (step i)
  have "DayFromYear (1970 + i) = DayFromYear (1970 + (i - 1)) + DaysInYear (1970 + (i - 1))"
    using DayFromYear_Suc[of "1970 + (i - 1)"] by simp
  then show ?case using step DaysInYear_bounds(1)[of "1970 + (i - 1)"] by simp
qed

lemma year_start_le:
  "DayFromYear (if 0 \<le> d then 1970 + d div 366 else 1970 + d div 365) \<le> d"
proof (cases "0 \<le> d")
  case True
  then have "0 \<le> d div 366" by simp
  then have "DayFromYear (1970 + d div 366) \<le> 366 * (d div 366)" by (rule DayFromYear_upper)
  moreover have "366 * (d div 366) \<le> d" by simp
  ultimately show ?thesis using True by simp
next
  case False
  then have "d div 365 \<le> 0" by simp
  then have "DayFromYear (1970 + d div 365) \<le> 365 * (d div 365)" by (rule DayFromYear_lower)
  moreover have "365 * (d div 365) \<le> d" by simp
  ultimately show ?thesis using False by simp
qed

lemma YearFromTime_bounds:
  "DayFromYear (YearFromTime t) \<le> Day t" "Day t < DayFromYear (YearFromTime t + 1)"
  using year_search_bounds[OF year_start_le[of "Day t"]] by (simp_all add: YearFromTime_def)

lemma YearFromTime_unique:
  assumes "DayFromYear y \<le> Day t" "Day t < DayFromYear (y + 1)"
  shows "YearFromTime t = y"
proof (rule ccontr)
  assume ne: "YearFromTime t \<noteq> y"
  show False
  proof (cases "YearFromTime t < y")
    case True
    then have "DayFromYear (YearFromTime t + 1) \<le> DayFromYear y" by (intro DayFromYear_mono) simp
    then show False using assms(1) YearFromTime_bounds(2)[of t] by simp
  next
    case False
    then have "DayFromYear (y + 1) \<le> DayFromYear (YearFromTime t)" using ne by (intro DayFromYear_mono) simp
    then show False using assms(2) YearFromTime_bounds(1)[of t] by simp
  qed
qed

lemma DayWithinYear_bounds: "0 \<le> DayWithinYear t" "DayWithinYear t < 365 + InLeapYear t"
  using YearFromTime_bounds[of t] DayFromYear_Suc[of "YearFromTime t"]
  by (simp_all add: DayWithinYear_def InLeapYear_def DaysInYear_leap)

lemma MonthFromTime_range: "0 \<le> MonthFromTime t" "MonthFromTime t < 12"
  by (simp_all add: MonthFromTime_def Let_def)

lemma MakeDay_fields_of_time: "MakeDay (YearFromTime t) (MonthFromTime t) (DateFromTime t + n) = Day t + n"
proof -
  have "MonthFromTime t div 12 = 0" "MonthFromTime t mod 12 = MonthFromTime t"
    using MonthFromTime_range[of t] by simp_all
  then show ?thesis
    by (simp add: MakeDay_def DateFromTime_def DayWithinYear_def InLeapYear_def)
qed

lemma month_cases:
  fixes m :: int assumes "0 \<le> m" "m < 12"
  shows "m = 0 \<or> m = 1 \<or> m = 2 \<or> m = 3 \<or> m = 4 \<or> m = 5 \<or> m = 6 \<or> m = 7 \<or> m = 8 \<or> m = 9 \<or> m = 10 \<or> m = 11"
proof -
  have "m \<in> set [0..11]" using assms by simp
  then show ?thesis by (simp add: upto_rec1)
qed

lemma month_bracket:
  fixes d L :: int
  assumes "0 \<le> d" "d < 365 + L"
  defines "m \<equiv> (if d < 31 then 0 else if d < 59 + L then 1 else if d < 90 + L then 2
      else if d < 120 + L then 3 else if d < 151 + L then 4 else if d < 181 + L then 5
      else if d < 212 + L then 6 else if d < 243 + L then 7 else if d < 273 + L then 8
      else if d < 304 + L then 9 else if d < 334 + L then 10 else (11::int))"
  shows "month_start L m \<le> d"
    and "d < month_start L m + (if m = 1 then 28 + L else if m = 3 \<or> m = 5 \<or> m = 8 \<or> m = 10 then 30 else 31)"
  using assms(1,2) unfolding m_def month_start_def by (simp_all split: if_split)

lemma MonthFromTime_bracket:
  "month_start (InLeapYear t) (MonthFromTime t) \<le> DayWithinYear t"
  "DayWithinYear t < month_start (InLeapYear t) (MonthFromTime t)
                      + DaysInMonth (YearFromTime t) (MonthFromTime t)"
proof -
  note b = month_bracket[OF DayWithinYear_bounds, of t]
  show "month_start (InLeapYear t) (MonthFromTime t) \<le> DayWithinYear t"
    using b(1) by (simp only: MonthFromTime_def Let_def)
  show "DayWithinYear t < month_start (InLeapYear t) (MonthFromTime t)
                      + DaysInMonth (YearFromTime t) (MonthFromTime t)"
    using b(2) by (simp only: MonthFromTime_def Let_def DaysInMonth_def InLeapYear_def[symmetric])
qed

lemma DateFromTime_range:
  "1 \<le> DateFromTime t" "DateFromTime t \<le> DaysInMonth (YearFromTime t) (MonthFromTime t)"
  using MonthFromTime_bracket[of t] by (simp_all add: DateFromTime_def)

lemma Day_MakeDate: "0 \<le> tod \<Longrightarrow> tod < msPerDay \<Longrightarrow> Day (MakeDate dy tod) = dy"
  by (simp add: Day_def MakeDate_def msPerDay_def)

lemma TimeWithinDay_MakeDate: "0 \<le> tod \<Longrightarrow> tod < msPerDay \<Longrightarrow> TimeWithinDay (MakeDate dy tod) = tod"
  by (simp add: TimeWithinDay_def MakeDate_def msPerDay_def)

lemma MakeDate_Day: "MakeDate (Day t) (TimeWithinDay t) = t"
  by (simp add: MakeDate_def Day_def TimeWithinDay_def)

lemma TimeWithinDay_range: "0 \<le> TimeWithinDay t" "TimeWithinDay t < msPerDay"
  by (simp_all add: TimeWithinDay_def msPerDay_def)

lemma month_offset_bound:
  assumes "0 \<le> m" "m < 12" "1 \<le> d" "d \<le> DaysInMonth y m"
  shows "0 \<le> month_start (leap_flag y) m + d - 1"
    and "month_start (leap_flag y) m + d - 1 < DaysInYear y"
proof -
  note L = leap_flag_range[of y]
  show "0 \<le> month_start (leap_flag y) m + d - 1"
    using assms(3) L month_cases[OF assms(1,2)] by (elim disjE) (simp_all add: month_start_def)
  show "month_start (leap_flag y) m + d - 1 < DaysInYear y"
    using assms(4) L month_cases[OF assms(1,2)]
    by (elim disjE) (simp_all add: month_start_def DaysInMonth_def DaysInYear_leap)
qed

lemma MonthFromTime_of_offset:
  fixes L d m :: int
  assumes "0 \<le> m" "m < 12" "1 \<le> d" "0 \<le> L" "L \<le> 1"
    and "d \<le> (if m = 1 then 28 + L else if m = 3 \<or> m = 5 \<or> m = 8 \<or> m = 10 then 30 else 31)"
  defines "x \<equiv> month_start L m + d - 1"
  shows "(if x < 31 then 0 else if x < 59 + L then 1 else if x < 90 + L then 2
      else if x < 120 + L then 3 else if x < 151 + L then 4 else if x < 181 + L then 5
      else if x < 212 + L then 6 else if x < 243 + L then 7 else if x < 273 + L then 8
      else if x < 304 + L then 9 else if x < 334 + L then 10 else (11::int)) = m"
  using assms(3-6) month_cases[OF assms(1,2)] unfolding x_def
  by (elim disjE) (simp_all add: month_start_def)

lemma civil_of_MakeDay:
  assumes m: "0 \<le> m" "m < 12" and d: "1 \<le> d" "d \<le> DaysInMonth y m"
    and tod: "0 \<le> tod" "tod < msPerDay"
  defines "t \<equiv> MakeDate (MakeDay y m d) tod"
  shows "YearFromTime t = y" "MonthFromTime t = m" "DateFromTime t = d" "TimeWithinDay t = tod"
proof -
  let ?L = "leap_flag y"
  have md: "MakeDay y m d = DayFromYear y + (month_start ?L m + d - 1)"
    using m by (simp add: MakeDay_def)
  have day: "Day t = DayFromYear y + (month_start ?L m + d - 1)"
    unfolding t_def using Day_MakeDate[OF tod] md by simp
  note ob = month_offset_bound[OF m d]
  show y: "YearFromTime t = y"
    using day ob DayFromYear_Suc[of y] by (intro YearFromTime_unique) simp_all
  have dwy: "DayWithinYear t = month_start ?L m + d - 1"
    by (simp add: DayWithinYear_def y day)
  have leap: "InLeapYear t = ?L" by (simp add: InLeapYear_def y)
  have d': "d \<le> (if m = 1 then 28 + ?L else if m = 3 \<or> m = 5 \<or> m = 8 \<or> m = 10 then 30 else 31)"
    using d(2) by (simp only: DaysInMonth_def)
  show mm: "MonthFromTime t = m"
    using MonthFromTime_of_offset[OF m d(1) leap_flag_range[of y] d']
    by (simp only: MonthFromTime_def Let_def dwy leap)
  show "DateFromTime t = d" by (simp add: DateFromTime_def dwy leap mm)
  show "TimeWithinDay t = tod" unfolding t_def by (rule TimeWithinDay_MakeDate[OF tod])
qed

lemma MakeDay_norm: "MakeDay y m d = MakeDay (fst (month_norm y m)) (snd (month_norm y m)) d"
  by (simp add: MakeDay_def month_norm_def)

lemma month_norm_range: "0 \<le> snd (month_norm y m)" "snd (month_norm y m) < 12"
  by (simp_all add: month_norm_def)

lemma MakeDay_month_succ:
  assumes "0 \<le> m" "m < 12"
  shows "MakeDay y (m + 1) d = MakeDay y m (d + DaysInMonth y m)"
proof (cases "m = 11")
  case True
  then show ?thesis using DayFromYear_Suc[of y]
    by (simp add: MakeDay_def month_start_def DaysInMonth_def DaysInYear_leap)
next
  case False
  then have "m + 1 < 12" using assms by simp
  then have dm: "(m + 1) div 12 = 0" "(m + 1) mod 12 = m + 1" "m div 12 = 0" "m mod 12 = m"
    using assms by simp_all
  have "month_start (leap_flag y) (m + 1) = month_start (leap_flag y) m + DaysInMonth y m"
    using False month_cases[OF assms] by (elim disjE) (simp_all add: month_start_def DaysInMonth_def)
  then show ?thesis by (simp add: MakeDay_def dm)
qed

lemma DaysInMonth_bounds: "28 \<le> DaysInMonth y m" "DaysInMonth y m \<le> 31"
  using leap_flag_range[of y] by (simp_all add: DaysInMonth_def)

lemma civil_of_MakeDay_months:
  fixes y m0 k d tod :: int
  assumes d: "1 \<le> d" "d \<le> 31" and tod: "0 \<le> tod" "tod < msPerDay"
  defines "t \<equiv> MakeDate (MakeDay y (m0 + k) d) tod"
  shows "(YearFromTime t, MonthFromTime t, DateFromTime t) = plus_months (y, m0, d) k"
    and "TimeWithinDay t = tod"
proof -
  obtain y1 m1 where n1: "month_norm y (m0 + k) = (y1, m1)" by (cases "month_norm y (m0 + k)")
  have r1: "0 \<le> m1" "m1 < 12" using month_norm_range[of y "m0 + k"] n1 by simp_all
  have t1: "t = MakeDate (MakeDay y1 m1 d) tod"
    unfolding t_def using MakeDay_norm[of y "m0 + k" d] n1 by simp
  show "TimeWithinDay t = tod" unfolding t_def by (rule TimeWithinDay_MakeDate[OF tod])
  show "(YearFromTime t, MonthFromTime t, DateFromTime t) = plus_months (y, m0, d) k"
  proof (cases "d \<le> DaysInMonth y1 m1")
    case True
    have "(YearFromTime t, MonthFromTime t, DateFromTime t) = (y1, m1, d)"
      unfolding t1 using civil_of_MakeDay(1-3)[OF r1 d(1) True tod] by simp
    also have "\<dots> = plus_months (y, m0, d) k"
      using True by (simp add: plus_months_def n1)
    finally show ?thesis .
  next
    case False
    obtain y2 m2 where n2: "month_norm y1 (m1 + 1) = (y2, m2)" by (cases "month_norm y1 (m1 + 1)")
    have r2: "0 \<le> m2" "m2 < 12" using month_norm_range[of y1 "m1 + 1"] n2 by simp_all
    define e where "e = d - DaysInMonth y1 m1"
    have e: "1 \<le> e" "e \<le> DaysInMonth y2 m2"
      using False d DaysInMonth_bounds[of y1 m1] DaysInMonth_bounds[of y2 m2] by (simp_all add: e_def)
    have "MakeDay y1 m1 d = MakeDay y1 (m1 + 1) e"
      using MakeDay_month_succ[OF r1, of y1 e] by (simp add: e_def)
    also have "\<dots> = MakeDay y2 m2 e" using MakeDay_norm[of y1 "m1 + 1" e] n2 by simp
    finally have t2: "t = MakeDate (MakeDay y2 m2 e) tod" using t1 by simp
    have "(YearFromTime t, MonthFromTime t, DateFromTime t) = (y2, m2, e)"
      unfolding t2 using civil_of_MakeDay(1-3)[OF r2 e tod] by simp
    also have "\<dots> = plus_months (y, m0, d) k"
      using False by (simp add: plus_months_def n1 n2 e_def)
    finally show ?thesis .
  qed
qed

lemma YearFromTime_greatest: "DayFromYear y \<le> Day t \<longleftrightarrow> y \<le> YearFromTime t"
proof
  assume a: "DayFromYear y \<le> Day t"
  show "y \<le> YearFromTime t"
  proof (rule ccontr)
    assume "\<not> y \<le> YearFromTime t"
    then have "DayFromYear (YearFromTime t + 1) \<le> DayFromYear y"
      by (intro DayFromYear_mono) simp
    then show False
      using a YearFromTime_bounds(2)[of t] by simp
  qed
next
  assume "y \<le> YearFromTime t"
  then have "DayFromYear y \<le> DayFromYear (YearFromTime t)"
    by (rule DayFromYear_mono)
  then show "DayFromYear y \<le> Day t"
    using YearFromTime_bounds(1)[of t] by simp
qed

lemma civil_examples:
  "civil 0 0 = (1970, 0, 1)"
  "civil 0 (-1) = (1969, 11, 31)"
  "civil 0 951782400000 = (2000, 1, 29)"
  "civil 0 (-2203891200000) = (1900, 2, 1)"
  "civil 3600000 1704063600000 = (2024, 0, 1)"
  "civil 0 1704063600000 = (2023, 11, 31)"
  by code_simp+

lemma plus_months_fits:
  "month_norm y (m + k) = (y1, m1) \<Longrightarrow> d \<le> DaysInMonth y1 m1 \<Longrightarrow>
     plus_months (y, m, d) k = (y1, m1, d) \<and> plus_months_clamped (y, m, d) k = (y1, m1, d)"
  by (simp add: plus_months_def plus_months_clamped_def)


subsection \<open>Adding days, months and years\<close>

lemma LocalTime_UTC: "LocalTime tza (UTC tza t) = t"
  by (simp add: LocalTime_def UTC_def)



lemma addMonths_civil:
  "civil tza (addMonths tza t k) = plus_months (civil tza t) k"
  "time_of_day tza (addMonths tza t k) = time_of_day tza t"
proof -
  let ?lt = "LocalTime tza t"
  let ?r = "MakeDate (MakeDay (YearFromTime ?lt) (MonthFromTime ?lt + k) (DateFromTime ?lt))
              (TimeWithinDay ?lt)"
  have lr: "LocalTime tza (addMonths tza t k) = ?r"
    by (simp add: addMonths_def setMonth_def getMonth_def Let_def LocalTime_UTC)
  have d: "1 \<le> DateFromTime ?lt" "DateFromTime ?lt \<le> 31"
    using DateFromTime_range[of ?lt]
      DaysInMonth_bounds(2)[of "YearFromTime ?lt" "MonthFromTime ?lt"] by simp_all
  note m = civil_of_MakeDay_months[OF d TimeWithinDay_range,
      where t1 = ?lt and y = "YearFromTime ?lt" and ?m0.0 = "MonthFromTime ?lt" and k = k]
  show "civil tza (addMonths tza t k) = plus_months (civil tza t) k"
    using m(1) by (simp add: civil_def getFullYear_def getMonth_def getDate_def lr)
  show "time_of_day tza (addMonths tza t k) = time_of_day tza t"
    using m(2) by (simp add: time_of_day_def lr)
qed


lemma addMonths_one_ms:
  "addMonths tza t 1 = t + DaysInMonth (getFullYear tza t) (getMonth tza t) * msPerDay"
proof -
  let ?lt = "LocalTime tza t"
  have "MakeDay (YearFromTime ?lt) (MonthFromTime ?lt + 1) (DateFromTime ?lt)
          = Day ?lt + DaysInMonth (YearFromTime ?lt) (MonthFromTime ?lt)"
    using MakeDay_month_succ[OF MonthFromTime_range,
        where t1 = ?lt and y = "YearFromTime ?lt" and d = "DateFromTime ?lt"]
    by (simp only: MakeDay_fields_of_time)
  then have "MakeDate (MakeDay (YearFromTime ?lt) (MonthFromTime ?lt + 1) (DateFromTime ?lt))
          (TimeWithinDay ?lt)
           = MakeDate (Day ?lt) (TimeWithinDay ?lt)
               + DaysInMonth (YearFromTime ?lt) (MonthFromTime ?lt) * msPerDay"
    by (simp add: MakeDate_def algebra_simps)
  then show ?thesis
    by (simp add: addMonths_def setMonth_def getMonth_def getFullYear_def Let_def UTC_def
        MakeDate_Day) (simp add: LocalTime_def)
qed








subsection \<open>Unrecognised cycle types\<close>

lemma utils_unknown_type:
  "bc_type c \<notin> {''daily'', ''weekly'', ''monthly'', ''quarterly'', ''yearly'', ''custom''} \<Longrightarrow>
     calculateNextBillingDate tza d c = addMonths tza d 1"
  by (simp add: calculateNextBillingDate_def)

lemma method_unknown_type:
  "bc_type (billingCycle s) \<notin> {''daily'', ''weekly'', ''monthly'', ''quarterly'', ''yearly'', ''custom''} \<Longrightarrow>
     Subscription_calculateNextBillingDate tza s = nextBillingDate s"
  by (simp add: Subscription_calculateNextBillingDate_def)

lemma method_custom_unset:
  "bc_type (billingCycle s) = ''custom'' \<Longrightarrow> customDays (billingCycle s) = None \<Longrightarrow>
     Subscription_calculateNextBillingDate tza s = nextBillingDate s"
  by (simp add: Subscription_calculateNextBillingDate_def)

lemma civil_jan15: "civil 0 1705320000000 = (2024, 0, 15)"
  by code_simp

lemma plus_months_jan15: "plus_months (2024, 0, 15) 1 = (2024, 1, 15)"
  by code_simp

text \<open>
  Claim C5 says that for a cycle type outside the six known ones the next billing date is
  the monthly one. \<^verbatim>\<open>calculateNextBillingDate\<close> of date-utils does that
  (\<open>utils_unknown_type\<close>), but \<^verbatim>\<open>Subscription.calculateNextBillingDate\<close>, which
  \<^verbatim>\<open>recordPayment\<close> calls, returns the date unchanged (\<open>method_unknown_type\<close>). At the
  type \<^verbatim>\<open>'biweekly'\<close> and 15 January 2024, 12:00 UTC: the method keeps 15 January, date-utils
  gives 15 February.
\<close>

theorem unknown_cycle_method_keeps_date:
  "Subscription_calculateNextBillingDate 0
     (sample_subscription\<lparr>billingCycle := \<lparr>bc_type = ''biweekly'', customDays = None\<rparr>,
                          nextBillingDate := 1705320000000\<rparr>) = 1705320000000 \<and>
   calculateNextBillingDate 0 1705320000000 \<lparr>bc_type = ''biweekly'', customDays = None\<rparr>
     = 1707998400000 \<and>
   civil 0 1705320000000 = (2024, 0, 15) \<and>
   civil 0 1707998400000 = (2024, 1, 15)"
proof -
  have u: "calculateNextBillingDate 0 1705320000000 \<lparr>bc_type = ''biweekly'', customDays = None\<rparr>
          = addMonths 0 1705320000000 1"
    by (simp add: calculateNextBillingDate_def)
  have v: "addMonths 0 1705320000000 1 = 1707998400000"
    using addMonths_one_ms[of 0 1705320000000] civil_jan15
    by (simp add: civil_def DaysInMonth_def msPerDay_def)
  have w: "civil 0 1707998400000 = (2024, 1, 15)"
    using addMonths_civil(1)[of 0 1705320000000 1]
    by (simp add: v civil_jan15 plus_months_jan15)
  show ?thesis
    by (simp add: u v w civil_jan15 Subscription_calculateNextBillingDate_def)
qed

subsection \<open>Recording a payment\<close>





subsection \<open>Budget percentage and alert level\<close>






text \<open>
  Claim C10. A budget built from data whose \<open>alertThreshold\<close> is 0 or absent has the
  threshold 80, and no constructed budget has the threshold 0.
\<close>

theorem alertThreshold_never_zero:
  "(bd_alertThreshold data = None \<or> bd_alertThreshold data = Some 0 \<longrightarrow>
      alertThreshold (Budget_new tza now uuid data) = 80) \<and>
   alertThreshold (Budget_new tza now uuid data) \<noteq> 0"
  by (auto simp: Budget_new_def num_or_def split: option.splits)

theorem alertThreshold_never_zero_witness:
  "bd_alertThreshold sample_budget_data = Some 0 \<and>
   alertThreshold (Budget_new 0 1704067200000 ''b1'' sample_budget_data) = 80 \<and>
   alertThreshold (Budget_new 0 1704067200000 ''b1''
                     (sample_budget_data\<lparr>bd_alertThreshold := None\<rparr>)) = 80 \<and>
   Budget_validate (Budget_new 0 1704067200000 ''b1'' sample_budget_data) = []"
  using alertThreshold_never_zero[of sample_budget_data 0 1704067200000 "''b1''"]
    alertThreshold_never_zero[of "sample_budget_data\<lparr>bd_alertThreshold := None\<rparr>" 0 1704067200000 "''b1''"]
  by (simp add: sample_budget_data_def Budget_validate_def Budget_new_def num_or_def str_or_def)

subsection \<open>Monthly equivalent cost\<close>

lemma total_monthly_cost_fold:
  "SubscriptionService_getTotalMonthlyCost svc
     = foldl (\<lambda>total sub. js_add total (SubscriptionService_getSubscriptionMonthlyCost sub))
         (Fin 0) (filter isActive (subscriptions svc))"
  by (simp add: SubscriptionService_getTotalMonthlyCost_def
      SubscriptionService_getSubscriptionMonthlyCost_def SubscriptionService_getActive_def Let_def)

lemma monthly_cost_custom_default:
  "bc_type (billingCycle s) = ''custom'' \<Longrightarrow>
   customDays (billingCycle s) = None \<or> customDays (billingCycle s) = Some 0 \<Longrightarrow>
     SubscriptionService_getSubscriptionMonthlyCost s = Fin (cost s / 30 * 30)"
  by (auto simp: SubscriptionService_getSubscriptionMonthlyCost_def num_or_def js_div_def js_mul_def)

text \<open>
  Claim C6. The monthly equivalent of a subscription is \<open>cost * 30\<close> for daily,
  \<open>cost * 4\<close> for weekly, \<open>cost\<close> for monthly, \<open>cost / 3\<close> for quarterly, \<open>cost / 12\<close> for
  yearly and \<open>(cost / customDays) * 30\<close> for custom (with \<open>customDays\<close> present and not
  zero), always a finite number; \<^verbatim>\<open>getTotalMonthlyCost\<close> adds up the same quantity over the
  active subscriptions.
\<close>

theorem monthly_equivalent_rules:
  fixes s :: Subscription and n :: int
  defines "ty \<equiv> bc_type (billingCycle s)"
    and "m \<equiv> SubscriptionService_getSubscriptionMonthlyCost s"
  shows "(ty = ''daily'' \<longrightarrow> m = Fin (cost s * 30)) \<and>
         (ty = ''weekly'' \<longrightarrow> m = Fin (cost s * 4)) \<and>
         (ty = ''monthly'' \<longrightarrow> m = Fin (cost s)) \<and>
         (ty = ''quarterly'' \<longrightarrow> m = Fin (cost s / 3)) \<and>
         (ty = ''yearly'' \<longrightarrow> m = Fin (cost s / 12)) \<and>
         (ty = ''custom'' \<and> customDays (billingCycle s) = Some n \<and> n \<noteq> 0 \<longrightarrow>
            m = Fin (cost s / of_int n * 30)) \<and>
         SubscriptionService_getTotalMonthlyCost svc
           = foldl (\<lambda>total sub. js_add total (SubscriptionService_getSubscriptionMonthlyCost sub))
               (Fin 0) (filter isActive (subscriptions svc))"
proof (intro conjI impI)
  assume "ty = ''custom'' \<and> customDays (billingCycle s) = Some n \<and> n \<noteq> 0"
  then show "m = Fin (cost s / of_int n * 30)"
    by (simp add: ty_def m_def SubscriptionService_getSubscriptionMonthlyCost_def num_or_def
        js_div_def js_mul_def)
next
  show "SubscriptionService_getTotalMonthlyCost svc
           = foldl (\<lambda>total sub. js_add total (SubscriptionService_getSubscriptionMonthlyCost sub))
               (Fin 0) (filter isActive (subscriptions svc))"
    by (rule total_monthly_cost_fold)
qed (simp_all add: ty_def m_def SubscriptionService_getSubscriptionMonthlyCost_def js_div_def)

theorem monthly_equivalent_rules_witness:
  "SubscriptionService_getSubscriptionMonthlyCost
     (sample_subscription\<lparr>cost := 120, billingCycle := \<lparr>bc_type = ''yearly'', customDays = None\<rparr>\<rparr>)
     = Fin 10 \<and>
   SubscriptionService_getSubscriptionMonthlyCost
     (sample_subscription\<lparr>cost := 10, billingCycle := \<lparr>bc_type = ''custom'', customDays = Some 10\<rparr>\<rparr>)
     = Fin 30 \<and>
   SubscriptionService_getSubscriptionMonthlyCost
     (sample_subscription\<lparr>cost := 2, billingCycle := \<lparr>bc_type = ''daily'', customDays = None\<rparr>\<rparr>)
     = Fin 60 \<and>
   SubscriptionService_getSubscriptionMonthlyCost
     (sample_subscription\<lparr>cost := 5, billingCycle := \<lparr>bc_type = ''weekly'', customDays = None\<rparr>\<rparr>)
     = Fin 20 \<and>
   SubscriptionService_getSubscriptionMonthlyCost sample_subscription = Fin 12 \<and>
   SubscriptionService_getSubscriptionMonthlyCost
     (sample_subscription\<lparr>cost := 30, billingCycle := \<lparr>bc_type = ''quarterly'', customDays = None\<rparr>\<rparr>)
     = Fin 10"
  using monthly_equivalent_rules[of "sample_subscription\<lparr>cost := 120, billingCycle := \<lparr>bc_type = ''yearly'', customDays = None\<rparr>\<rparr>" 10]
    monthly_equivalent_rules[of "sample_subscription\<lparr>cost := 10, billingCycle := \<lparr>bc_type = ''custom'', customDays = Some 10\<rparr>\<rparr>" 10]
    monthly_equivalent_rules[of "sample_subscription\<lparr>cost := 2, billingCycle := \<lparr>bc_type = ''daily'', customDays = None\<rparr>\<rparr>" 10]
    monthly_equivalent_rules[of "sample_subscription\<lparr>cost := 5, billingCycle := \<lparr>bc_type = ''weekly'', customDays = None\<rparr>\<rparr>" 10]
    monthly_equivalent_rules[of sample_subscription 10]
    monthly_equivalent_rules[of "sample_subscription\<lparr>cost := 30, billingCycle := \<lparr>bc_type = ''quarterly'', customDays = None\<rparr>\<rparr>" 10]
  by (simp add: sample_subscription_def)

subsection \<open>Spending for a budget\<close>

lemma payments_fold:
  "foldl (\<lambda>sp payment. if isWithinRange (pay_date payment) a b then sp + pay_amount payment else sp)
     acc ps
   = acc + sum_list (map pay_amount (filter (\<lambda>p. a \<le> pay_date p \<and> pay_date p \<le> b) ps))"
  by (induction ps arbitrary: acc) (simp_all add: isWithinRange_def)

lemma spending_fold:
  "foldl (\<lambda>spent sub.
              if (case bud_category budget of None \<Rightarrow> False
                  | Some c \<Rightarrow> c \<noteq> [] \<and> category sub \<noteq> c)
              then spent
              else
                (let spent1 =
                       foldl (\<lambda>sp payment.
                                if isWithinRange (pay_date payment)
                                     (period_start (period budget)) (period_end (period budget))
                                then sp + pay_amount payment else sp)
                         spent (history sub)
                 in if isActive sub \<and>
                       isWithinRange (nextBillingDate sub)
                         (period_start (period budget)) (period_end (period budget))
                    then spent1 + cost sub else spent1))
       acc subs
   = acc + sum_list (map (\<lambda>sub. paid_in_period budget sub + upcoming_in_period budget sub)
                       (filter (matches_budget budget) subs))"
proof (induction subs arbitrary: acc)
  case Nil
  show ?case by simp
next
  case (Cons sub subs)
  show ?case
    by (simp add: Cons.IH payments_fold Let_def)
       (auto simp: matches_budget_def paid_in_period_def upcoming_in_period_def in_period_def
          isWithinRange_def split: option.splits)
qed

text \<open>
  Claim C3. \<^verbatim>\<open>getSpendingForBudget\<close> is the sum, over the subscriptions that pass the
  budget's category filter (no category matches all), of the history payments dated
  within the period, bounds included, plus the cost once when the subscription is active
  and its next billing date lies within the period. Nothing is de-duplicated.
\<close>

theorem spendingForBudget_sum:
  "BudgetService_getSpendingForBudget budget subs
     = sum_list (map (\<lambda>sub. paid_in_period budget sub + upcoming_in_period budget sub)
                   (filter (matches_budget budget) subs))"
  unfolding BudgetService_getSpendingForBudget_def by (simp add: spending_fold)

text \<open>
  Examples: a yearly subscription of cost 12 against a budget of 5 gives spending 12, 240
  percent and \<^verbatim>\<open>'danger'\<close>; a payment and a next billing date on the same day are both
  counted (24); a category filter that does not match gives 0; payments on the first and
  the last millisecond of the period count, one millisecond later does not.
\<close>

theorem spendingForBudget_sum_witness:
  "BudgetService_getSpendingForBudget (sample_budget\<lparr>amount := 5\<rparr>)
     [sample_subscription\<lparr>billingCycle := \<lparr>bc_type = ''yearly'', customDays = None\<rparr>\<rparr>] = 12 \<and>
   Budget_calculatePercentageUsed (sample_budget\<lparr>amount := 5\<rparr>) 12 = Fin 240 \<and>
   Budget_getAlertLevel (sample_budget\<lparr>amount := 5\<rparr>) 12 = ''danger'' \<and>
   BudgetService_getSpendingForBudget sample_budget
     [sample_subscription\<lparr>history :=
        [\<lparr>pay_date = 1706702400000, pay_amount = 12, pay_currency = ''USD''\<rparr>]\<rparr>] = 24 \<and>
   BudgetService_getSpendingForBudget (sample_budget\<lparr>bud_category := Some ''Music''\<rparr>)
     [sample_subscription] = 0 \<and>
   BudgetService_getSpendingForBudget sample_budget
     [sample_subscription\<lparr>isActive := False, history :=
        [\<lparr>pay_date = 1704067200000, pay_amount = 7, pay_currency = ''USD''\<rparr>,
         \<lparr>pay_date = 1706745600000, pay_amount = 8, pay_currency = ''USD''\<rparr>,
         \<lparr>pay_date = 1706745600001, pay_amount = 9, pay_currency = ''USD''\<rparr>]\<rparr>] = 15"
  using spendingForBudget_sum[of "sample_budget\<lparr>amount := 5\<rparr>"
      "[sample_subscription\<lparr>billingCycle := \<lparr>bc_type = ''yearly'', customDays = None\<rparr>\<rparr>]"]
    spendingForBudget_sum[of sample_budget "[sample_subscription\<lparr>history :=
        [\<lparr>pay_date = 1706702400000, pay_amount = 12, pay_currency = ''USD''\<rparr>]\<rparr>]"]
    spendingForBudget_sum[of "sample_budget\<lparr>bud_category := Some ''Music''\<rparr>" "[sample_subscription]"]
    spendingForBudget_sum[of sample_budget "[sample_subscription\<lparr>isActive := False, history :=
        [\<lparr>pay_date = 1704067200000, pay_amount = 7, pay_currency = ''USD''\<rparr>,
         \<lparr>pay_date = 1706745600000, pay_amount = 8, pay_currency = ''USD''\<rparr>,
         \<lparr>pay_date = 1706745600001, pay_amount = 9, pay_currency = ''USD''\<rparr>]\<rparr>]"]
  by (simp add: sample_budget_def sample_subscription_def matches_budget_def paid_in_period_def
      upcoming_in_period_def in_period_def Budget_calculatePercentageUsed_def js_div_def
      js_mul_def Budget_getAlertLevel_def js_ge_def)

subsection \<open>Create and update\<close>

lemma join_contains:
  "m \<in> set ms \<Longrightarrow> \<exists>pre post. join sep ms = pre @ m @ post"
proof (induction sep ms rule: join.induct)
  case (1 sep)
  then show ?case by simp
next
  case (2 sep x)
  then have "join sep [x] = [] @ m @ []" by simp
  then show ?case by blast
next
  case (3 sep x y ys)
  show ?case
  proof (cases "m = x")
    case True
    then have "join sep (x # y # ys) = [] @ m @ (sep @ join sep (y # ys))" by simp
    then show ?thesis by blast
  next
    case False
    then have "m \<in> set (y # ys)" using "3.prems" by simp
    then obtain pre post where "join sep (y # ys) = pre @ m @ post"
      using "3.IH" by blast
    then have "join sep (x # y # ys) = (x @ sep @ pre) @ m @ post" by simp
    then show ?thesis by blast
  qed
qed

lemma trim_Nil: "trim [] = []"
  by (simp add: trim_def)



lemma Subscription_validate_messages:
  "''Name is required'' \<in> set (Subscription_validate s) \<longleftrightarrow> trim (name s) = []"
  "''Cost must be greater than 0'' \<in> set (Subscription_validate s) \<longleftrightarrow> cost s \<le> 0"
  "''Invalid billing cycle type'' \<in> set (Subscription_validate s) \<longleftrightarrow>
     bc_type (billingCycle s)
        \<notin> {''daily'', ''weekly'', ''monthly'', ''quarterly'', ''yearly'', ''custom''}"
  "''Custom billing cycle requires valid number of days'' \<in> set (Subscription_validate s) \<longleftrightarrow>
     (bc_type (billingCycle s) = ''custom'' \<and>
       (case customDays (billingCycle s) of None \<Rightarrow> True | Some n \<Rightarrow> n \<le> 0))"
  by (auto simp: Subscription_validate_def trim_Nil split: option.splits)

lemma Budget_validate_messages:
  "''Budget amount must be greater than 0'' \<in> set (Budget_validate b) \<longleftrightarrow> amount b \<le> 0"
  "''Invalid budget type'' \<in> set (Budget_validate b) \<longleftrightarrow>
     bud_type b \<notin> {''monthly'', ''yearly'', ''category''}"
  "''Alert threshold must be between 0 and 100'' \<in> set (Budget_validate b) \<longleftrightarrow>
     alertThreshold b < 0 \<or> alertThreshold b > 100"
  by (auto simp: Budget_validate_def)

lemma findIndex_Some:
  "findIndex p xs = Some i \<Longrightarrow> i < length xs \<and> p (xs ! i) \<and> (\<forall>j<i. \<not> p (xs ! j))"
proof (induction xs arbitrary: i)
  case Nil
  then show ?case by simp
next
  case (Cons x xs)
  show ?case
  proof (cases "p x")
    case True
    then show ?thesis using Cons.prems by simp
  next
    case False
    then obtain k where k: "findIndex p xs = Some k" "i = Suc k"
      using Cons.prems by (auto split: option.splits)
    from Cons.IH[OF k(1)] False show ?thesis
      by (auto simp: k(2) nth_Cons split: nat.splits)
  qed
qed

lemma findIndex_None: "findIndex p xs = None \<longleftrightarrow> (\<forall>x \<in> set xs. \<not> p x)"
  by (induction xs) (auto split: option.splits)







subsection \<open>CSV export\<close>

lemma csv_header_line:
  "join [comma] csv_headers
     = ''Name,Cost,Currency,Billing Cycle,Next Billing Date,Category,Status,Notes,Created Date''"
  by (simp add: csv_headers_def comma_def)

lemma convertToCSV_nonempty:
  "subs \<noteq> [] \<Longrightarrow>
     convertToCSV numStr isoDay (Some subs)
       = ''Name,Cost,Currency,Billing Cycle,Next Billing Date,Category,Status,Notes,Created Date''
           @ [newline] @ join [newline] (map (csv_row numStr isoDay) subs)"
  by (cases subs) (simp_all add: convertToCSV_def obj_or_def Let_def csv_header_line)

lemma escapeCSV_plain:
  "comma \<notin> set str \<Longrightarrow> dquote \<notin> set str \<Longrightarrow> newline \<notin> set str \<Longrightarrow>
     escapeCSV (Some str) = str"
  by (simp add: escapeCSV_def)

lemma escapeCSV_quoted:
  "comma \<in> set str \<or> dquote \<in> set str \<or> newline \<in> set str \<Longrightarrow>
     escapeCSV (Some str)
       = dquote # concat (map (\<lambda>c. if c = dquote then [dquote, dquote] else [c]) str) @ [dquote]"
  by (auto simp: escapeCSV_def)

text \<open>
  Claim C9 says that every export, also one without subscriptions, starts with the nine
  column names. With at least one subscription it does (\<open>convertToCSV_nonempty\<close>), and
  every field goes through \<^verbatim>\<open>escapeCSV\<close>. For an empty or missing subscription list the
  early return writes eight names only: \<^verbatim>\<open>Created Date\<close> is missing.
\<close>

theorem csv_empty_export_header:
  "convertToCSV numStr isoDay (Some [])
     = ''Name,Cost,Currency,Billing Cycle,Next Billing Date,Category,Status,Notes'' @ [newline] \<and>
   convertToCSV numStr isoDay None = convertToCSV numStr isoDay (Some []) \<and>
   join [comma] csv_headers
     = ''Name,Cost,Currency,Billing Cycle,Next Billing Date,Category,Status,Notes,Created Date'' \<and>
   takeWhile (\<lambda>c. c \<noteq> newline) (convertToCSV numStr isoDay (Some []))
     \<noteq> join [comma] csv_headers \<and>
   takeWhile (\<lambda>c. c \<noteq> newline) (convertToCSV numStr isoDay (Some [sample_csv_subscription]))
     = join [comma] csv_headers"
proof -
  have a: "convertToCSV numStr isoDay (Some [])
     = ''Name,Cost,Currency,Billing Cycle,Next Billing Date,Category,Status,Notes'' @ [newline]"
    by (simp add: convertToCSV_def obj_or_def)
  have b: "convertToCSV numStr isoDay None = convertToCSV numStr isoDay (Some [])"
    by (simp add: convertToCSV_def obj_or_def)
  have c: "takeWhile (\<lambda>c. c \<noteq> newline) (convertToCSV numStr isoDay (Some []))
     = ''Name,Cost,Currency,Billing Cycle,Next Billing Date,Category,Status,Notes''"
    by (simp add: a newline_def)
  have d: "takeWhile (\<lambda>c. c \<noteq> newline) (convertToCSV numStr isoDay (Some [sample_csv_subscription]))
     = ''Name,Cost,Currency,Billing Cycle,Next Billing Date,Category,Status,Notes,Created Date''"
    by (simp add: convertToCSV_nonempty newline_def)
  show ?thesis
    by (simp only: a b c d csv_header_line) simp
qed

end
